theory Spec2Isabelle
  imports Main "HOL-Library.Word" "HOL-Library.Sublist"
begin

unbundle bit_operations_syntax

section \<open>Machine types\<close>

type_synonym u64 = "64 word"
type_synonym u16 = "16 word"
type_synonym byte = "8 word"
type_synonym bytes = "byte list"

section \<open>Errors and panics\<close>

text \<open>
  A Go function returns its \<open>error\<close> next to its values; the models return the same tuple,
  with \<open>None\<close> for a \<open>nil\<close> error. A run-time panic is not a return value: a function that
  can panic returns \<open>panic + result\<close>, and \<open>Inl\<close> is the panic.
\<close>

datatype go_error =
    ErrSyntax                 \<comment> \<open>\<open>strconv.ErrSyntax\<close>, inside a \<open>*strconv.NumError\<close>\<close>
  | ErrRange                  \<comment> \<open>\<open>strconv.ErrRange\<close>, inside a \<open>*strconv.NumError\<close>\<close>
  | PrunedError               \<comment> \<open>\<open>errors.New("old data not available due to pruning")\<close>\<close>
  | GapError string           \<comment> \<open>\<open>fmt.Errorf("some blocks are not in snapshots and not in db. ... 'rm -rf %s' ...", dirs.Chaindata)\<close>\<close>
  | UnknownHistoryName string \<comment> \<open>\<open>fmt.Errorf("unknown history name: %s", in)\<close>\<close>
  | UnknownInvertedIndexName string \<comment> \<open>\<open>fmt.Errorf("unknown inverted index name: %s", in)\<close>\<close>
  | Wrapped string bytes go_error   \<comment> \<open>\<open>fmt.Errorf("Op(%x): %w", address, err)\<close>: operation, address, cause\<close>
  | External string           \<comment> \<open>an error value produced by a collaborator outside these sources\<close>

datatype panic =
    IndexOutOfRange           \<comment> \<open>a slice index beyond the length\<close>
  | NilDereference            \<comment> \<open>a method call on a nil interface, or a nil pointer read\<close>

section \<open>Library functions of Go used by the code\<close>

text \<open>
  \<open>strings.HasPrefix\<close>, \<open>strings.Contains\<close> and \<open>strings.Split\<close> on byte strings. The code
  only splits on a separator of one character, which is what \<open>Split\<close> takes here.
  \<open>Split\<close> of the empty string is the list holding the empty string, as in Go.
\<close>

definition HasPrefix :: "string \<Rightarrow> string \<Rightarrow> bool" where
  "HasPrefix s pre = prefix pre s"

fun Contains :: "string \<Rightarrow> string \<Rightarrow> bool" where
  "Contains [] substr = (substr = [])"
| "Contains (c # s) substr = (prefix substr (c # s) \<or> Contains s substr)"

fun Split :: "string \<Rightarrow> char \<Rightarrow> string list" where
  "Split [] sep = [[]]"
| "Split (c # s) sep =
     (if c = sep then [] # Split s sep
      else (case Split s sep of
              [] \<Rightarrow> [[c]]
            | w # ws \<Rightarrow> (c # w) # ws))"

text \<open>
  \<open>strconv.ParseUint(s, 10, 64)\<close>: the empty string and any character that is not a
  decimal digit give the syntax error (no sign, no underscore in base 10); a value of
  \<open>2^64\<close> or more gives the range error; the first failure from the left wins. The callers
  drop the number that comes with an error, so the model returns the error alone.
\<close>

definition digit :: "char \<Rightarrow> nat option" where
  "digit c =
     (let n = (of_char c :: nat)
      in if of_char (CHR ''0'') \<le> n \<and> n \<le> of_char (CHR ''9'')
         then Some (n - of_char (CHR ''0'')) else None)"

fun parseDigits :: "string \<Rightarrow> nat \<Rightarrow> go_error + nat" where
  "parseDigits [] n = Inr n"
| "parseDigits (c # cs) n =
     (case digit c of
        None \<Rightarrow> Inl ErrSyntax
      | Some d \<Rightarrow>
          if 2 ^ 64 \<le> n * 10 + d then Inl ErrRange
          else parseDigits cs (n * 10 + d))"

definition ParseUint :: "string \<Rightarrow> go_error + u64" where
  "ParseUint s =
     (if s = [] then Inl ErrSyntax
      else (case parseDigits s 0 of
              Inl e \<Rightarrow> Inl e
            | Inr n \<Rightarrow> Inr (word_of_nat n)))"

text \<open>
  \<open>binary.BigEndian.Uint64(b)\<close> reads the first eight bytes, most significant first, and
  panics on a shorter slice.
\<close>

definition BigEndianUint64 :: "bytes \<Rightarrow> panic + u64" where
  "BigEndianUint64 b =
     (if length b < 8 then Inl IndexOutOfRange
      else Inr (foldl (\<lambda>acc x. push_bit 8 acc OR ucast x) 0 (take 8 b)))"

section \<open>Snapshot reconciliation\<close>

subsection \<open>\<open>adjustBlockPrune\<close>\<close>

text \<open>
  \<open>snaptype.Erigon2MergeLimit\<close> is a constant of a package whose declaration is not part
  of the sources at hand, so it is the first parameter of the function. The Go operators
  on \<open>uint64\<close> are the operators of \<open>64 word\<close>: \<open>-\<close> wraps, \<open>%\<close> is \<open>mod\<close>, comparisons are
  unsigned.
\<close>

definition adjustBlockPrune :: "u64 \<Rightarrow> u64 \<Rightarrow> u64 \<Rightarrow> u64" where
  "adjustBlockPrune Erigon2MergeLimit blocks minBlocksToDownload =
     (let minBlocksToDownload =
            (if minBlocksToDownload < Erigon2MergeLimit then Erigon2MergeLimit
             else minBlocksToDownload);
          blocks = (if blocks > minBlocksToDownload then minBlocksToDownload else blocks)
      in blocks - blocks mod Erigon2MergeLimit)"

subsection \<open>Classification of catalog names\<close>

record PreverifiedItem =
  Name :: string
  Hash :: string

type_synonym Preverified = "PreverifiedItem list"

definition isStateHistory :: "string \<Rightarrow> bool" where
  "isStateHistory name =
     (HasPrefix name ''idx'' \<or> HasPrefix name ''history'' \<or> HasPrefix name ''accessor'')"

definition isStateSnapshot :: "string \<Rightarrow> bool" where
  "isStateSnapshot name = (isStateHistory name \<or> HasPrefix name ''domain'')"

definition canSnapshotBePruned :: "string \<Rightarrow> bool" where
  "canSnapshotBePruned name = (isStateHistory name \<or> Contains name ''transactions'')"

subsection \<open>\<open>buildBlackListForPruning\<close>\<close>

text \<open>
  The upper end of the step range of a state file, as the loop body reads it:
  \<open>strings.Split(name, ".")[1]\<close>, then \<open>strings.Split(rangeString, "-")\<close>, then
  \<open>strconv.ParseUint(rangeNums[1], 10, 64)\<close>. Each index \<open>[1]\<close> panics when the split has
  a single part. The same three lines occur in \<open>getMaxStepRangeInSnapshots\<close>.
\<close>

definition parseStepTo :: "string \<Rightarrow> panic + (go_error + u64)" where
  "parseStepTo name =
     (let parts = Split name (CHR ''.'')
      in if length parts < 2 then Inl IndexOutOfRange
         else
           (let rangeString = parts ! 1;
                rangeNums = Split rangeString (CHR ''-'')
            in if length rangeNums < 2 then Inl IndexOutOfRange
               else Inr (ParseUint (rangeNums ! 1))))"

text \<open>
  \<open>snaptype.ParseFileName("", name)\<close> belongs to a package outside these sources; the
  model takes it as a parameter that returns the parsed range, the seedable flag and
  \<open>ok\<close>. Only \<open>res.To\<close> and \<open>ok\<close> are read.
\<close>

record FileInfo =
  From :: u64
  To :: u64

type_synonym parse_file_name = "string \<Rightarrow> FileInfo \<times> bool \<times> bool"

text \<open>
  The \<open>for _, p := range preverified\<close> loop. The map \<open>map[string]struct{}\<close> is the set of
  its keys. The function returns \<open>(nil, err)\<close> at the first name whose number does not
  parse, and \<open>(blackList, nil)\<close> after the last entry.
\<close>

fun blackListLoop ::
  "parse_file_name \<Rightarrow> u64 \<Rightarrow> u64 \<Rightarrow> Preverified \<Rightarrow> string set
     \<Rightarrow> panic + (string set option \<times> go_error option)" where
  "blackListLoop ParseFileName stepPrune blockPrune [] blackList = Inr (Some blackList, None)"
| "blackListLoop ParseFileName stepPrune blockPrune (p # ps) blackList =
     (let name = Name p
      in if \<not> canSnapshotBePruned name
         then blackListLoop ParseFileName stepPrune blockPrune ps blackList
         else if isStateSnapshot name
         then (case parseStepTo name of
                 Inl pn \<Rightarrow> Inl pn
               | Inr (Inl err) \<Rightarrow> Inr (None, Some err)
               | Inr (Inr toStep) \<Rightarrow>
                   if stepPrune < toStep
                   then blackListLoop ParseFileName stepPrune blockPrune ps blackList
                   else blackListLoop ParseFileName stepPrune blockPrune ps
                          (insert name blackList))
         else (case ParseFileName name of
                 (res, isSeedable, ok) \<Rightarrow>
                   if \<not> ok
                   then blackListLoop ParseFileName stepPrune blockPrune ps blackList
                   else if blockPrune < To res
                   then blackListLoop ParseFileName stepPrune blockPrune ps blackList
                   else blackListLoop ParseFileName stepPrune blockPrune ps
                          (insert name blackList)))"

definition buildBlackListForPruning ::
  "u64 \<Rightarrow> parse_file_name \<Rightarrow> bool \<Rightarrow> u64 \<Rightarrow> u64 \<Rightarrow> u64 \<Rightarrow> Preverified
     \<Rightarrow> panic + (string set option \<times> go_error option)" where
  "buildBlackListForPruning Erigon2MergeLimit ParseFileName pruneMode stepPrune
       minBlockToDownload blockPrune preverified =
     (if \<not> pruneMode then Inr (Some {}, None)
      else blackListLoop ParseFileName stepPrune
             (adjustBlockPrune Erigon2MergeLimit blockPrune minBlockToDownload)
             preverified {})"

subsection \<open>\<open>getMinimumBlocksToDownload\<close>\<close>

text \<open>
  \<open>IterateFrozenBodies\<close> is a method of the \<open>blockReader\<close> interface: it calls the
  callback on frozen block bodies and returns an error. The callback of
  \<open>getMinimumBlocksToDownload\<close> always returns \<open>nil\<close>, so it never stops the iteration;
  the model takes the list of bodies \<open>(blockNum, baseTxNum, txAmount)\<close> the iterator
  visits, in order, and the error it returns at the end. \<open>config3.DefaultStepSize\<close> is a
  positive constant declared outside these sources and is a parameter. The callback
  updates the two captured variables \<open>minToDownload\<close> and \<open>minStateStepToDownload\<close>; the
  parameter \<open>tx\<close> of the Go function is not used by it.
\<close>

type_synonym frozen_body = "u64 \<times> u64 \<times> u64"

definition frozenBodyCallback ::
  "u64 \<Rightarrow> u64 \<Rightarrow> u64 \<Rightarrow> u64 \<Rightarrow> u64 \<times> u64 \<Rightarrow> frozen_body \<Rightarrow> u64 \<times> u64" where
  "frozenBodyCallback DefaultStepSize frozenBlocks stateTxNum historyPruneTo vars body =
     (case vars of (minToDownload, minStateStepToDownload) \<Rightarrow>
      case body of (blockNum, baseTxNum, txAmount) \<Rightarrow>
        (let minStateStepToDownload =
               (if blockNum = historyPruneTo
                then (let m = (baseTxNum - (DefaultStepSize - 1)) div DefaultStepSize
                      in if baseTxNum < DefaultStepSize - 1 then 0 else m)
                else minStateStepToDownload)
         in if stateTxNum \<le> baseTxNum then (minToDownload, minStateStepToDownload)
            else
              (let newMinToDownload =
                     (if frozenBlocks > blockNum then frozenBlocks - blockNum else 0)
               in (if newMinToDownload < minToDownload then newMinToDownload
                   else minToDownload,
                   minStateStepToDownload))))"

definition getMinimumBlocksToDownload ::
  "u64 \<Rightarrow> u64 \<Rightarrow> frozen_body list \<Rightarrow> go_error option \<Rightarrow> u64 \<Rightarrow> u64
     \<Rightarrow> u64 \<times> u64 \<times> go_error option" where
  "getMinimumBlocksToDownload DefaultStepSize frozenBlocks bodies iterErr maxStateStep
       historyPruneTo =
     (let minToDownload = (0xFFFFFFFFFFFFFFFF :: u64);
          minStateStepToDownload = (0xFFFFFFFF :: u64);
          stateTxNum = maxStateStep * DefaultStepSize;
          vars = foldl (frozenBodyCallback DefaultStepSize frozenBlocks stateTxNum
                          historyPruneTo)
                   (minToDownload, minStateStepToDownload) bodies
      in case iterErr of
           Some err \<Rightarrow> (0, 0, Some err)
         | None \<Rightarrow> (frozenBlocks - fst vars, snd vars, None))"

subsection \<open>The last check of \<open>WaitForDownloader\<close>\<close>

text \<open>
  The last statements of \<open>WaitForDownloader\<close>, from \<open>rawdbv3.SecondKey(tx, kv.Headers)\<close>
  to the final \<open>return nil\<close>. They run on the path that talks to the downloader and is
  not restricted to the header chain, after every earlier step has succeeded.
  \<open>SecondKey\<close> and \<open>SegmentsMax\<close> are collaborators outside these sources: the model
  takes what they return. A \<open>nil\<close> key is \<open>None\<close>.
\<close>

definition WaitForDownloader_lastCheck ::
  "string \<Rightarrow> u64 \<Rightarrow> bytes option \<times> go_error option \<Rightarrow> panic + go_error option" where
  "WaitForDownloader_lastCheck chaindata segmentsMax secondKey =
     (case secondKey of (firstNonGenesis, err) \<Rightarrow>
        (case err of
           Some e \<Rightarrow> Inr (Some e)
         | None \<Rightarrow>
             (case firstNonGenesis of
                None \<Rightarrow> Inr None
              | Some k \<Rightarrow>
                  (case BigEndianUint64 k of
                     Inl pn \<Rightarrow> Inl pn
                   | Inr firstNonGenesisBlockNumber \<Rightarrow>
                       if segmentsMax + 1 < firstNonGenesisBlockNumber
                       then Inr (Some (GapError chaindata))
                       else Inr None))))"

section \<open>Domain catalog\<close>

text \<open>
  \<open>Domain\<close> is an unsigned 16-bit tag (the error value of \<open>String2Domain\<close> is
  \<open>Domain(MaxUint16)\<close>); \<open>InvertedIdx\<close> is a string. The \<open>switch\<close> statements become
  chains of tests in the order of their cases.
\<close>

type_synonym Domain = u16
type_synonym InvertedIdx = string

definition AccountsDomain :: Domain where "AccountsDomain = 0"
definition StorageDomain :: Domain where "StorageDomain = 1"
definition CodeDomain :: Domain where "CodeDomain = 2"
definition CommitmentDomain :: Domain where "CommitmentDomain = 3"
definition ReceiptDomain :: Domain where "ReceiptDomain = 4"
definition RCacheDomain :: Domain where "RCacheDomain = 5"
definition DomainLen :: Domain where "DomainLen = 6"

definition MaxUint16 :: u16 where "MaxUint16 = 0xFFFF"

definition AccountsHistoryIdx :: InvertedIdx where "AccountsHistoryIdx = ''AccountsHistoryIdx''"
definition StorageHistoryIdx :: InvertedIdx where "StorageHistoryIdx = ''StorageHistoryIdx''"
definition CodeHistoryIdx :: InvertedIdx where "CodeHistoryIdx = ''CodeHistoryIdx''"
definition CommitmentHistoryIdx :: InvertedIdx where
  "CommitmentHistoryIdx = ''CommitmentHistoryIdx''"
definition ReceiptHistoryIdx :: InvertedIdx where "ReceiptHistoryIdx = ''ReceiptHistoryIdx''"
definition RCacheHistoryIdx :: InvertedIdx where "RCacheHistoryIdx = ''ReceiptCacheHistoryIdx''"
definition LogTopicIdx :: InvertedIdx where "LogTopicIdx = ''LogTopicIdx''"
definition LogAddrIdx :: InvertedIdx where "LogAddrIdx = ''LogAddrIdx''"
definition TracesFromIdx :: InvertedIdx where "TracesFromIdx = ''TracesFromIdx''"
definition TracesToIdx :: InvertedIdx where "TracesToIdx = ''TracesToIdx''"

definition InvertedIdx_String :: "InvertedIdx \<Rightarrow> string" where
  "InvertedIdx_String idx =
     (if idx = AccountsHistoryIdx then ''accounts''
      else if idx = StorageHistoryIdx then ''storage''
      else if idx = CodeHistoryIdx then ''code''
      else if idx = CommitmentHistoryIdx then ''commitment''
      else if idx = ReceiptHistoryIdx then ''receipt''
      else if idx = RCacheHistoryIdx then ''rcache''
      else if idx = LogAddrIdx then ''logaddrs''
      else if idx = LogTopicIdx then ''logtopics''
      else if idx = TracesFromIdx then ''tracesfrom''
      else if idx = TracesToIdx then ''tracesto''
      else ''unknown index'')"

definition String2InvertedIdx :: "string \<Rightarrow> InvertedIdx \<times> go_error option" where
  "String2InvertedIdx s =
     (if s = ''accounts'' then (AccountsHistoryIdx, None)
      else if s = ''storage'' then (StorageHistoryIdx, None)
      else if s = ''code'' then (CodeHistoryIdx, None)
      else if s = ''commitment'' then (CommitmentHistoryIdx, None)
      else if s = ''receipt'' then (ReceiptHistoryIdx, None)
      else if s = ''rcache'' then (RCacheHistoryIdx, None)
      else if s = ''logaddrs'' then (LogAddrIdx, None)
      else if s = ''logtopics'' then (LogTopicIdx, None)
      else if s = ''tracesfrom'' then (TracesFromIdx, None)
      else if s = ''tracesto'' then (TracesToIdx, None)
      else ([], Some (UnknownInvertedIndexName s)))"

definition Domain_String :: "Domain \<Rightarrow> string" where
  "Domain_String d =
     (if d = AccountsDomain then ''accounts''
      else if d = StorageDomain then ''storage''
      else if d = CodeDomain then ''code''
      else if d = CommitmentDomain then ''commitment''
      else if d = ReceiptDomain then ''receipt''
      else if d = RCacheDomain then ''rcache''
      else ''unknown domain'')"

definition String2Domain :: "string \<Rightarrow> Domain \<times> go_error option" where
  "String2Domain s =
     (if s = ''accounts'' then (AccountsDomain, None)
      else if s = ''storage'' then (StorageDomain, None)
      else if s = ''code'' then (CodeDomain, None)
      else if s = ''commitment'' then (CommitmentDomain, None)
      else if s = ''receipt'' then (ReceiptDomain, None)
      else if s = ''rcache'' then (RCacheDomain, None)
      else (MaxUint16, Some (UnknownHistoryName s)))"

text \<open>The tags and names the two \<open>switch\<close> statements list.\<close>

definition validDomains :: "Domain list" where
  "validDomains =
     [AccountsDomain, StorageDomain, CodeDomain, CommitmentDomain, ReceiptDomain, RCacheDomain]"

definition validInvertedIdxs :: "InvertedIdx list" where
  "validInvertedIdxs =
     [AccountsHistoryIdx, StorageHistoryIdx, CodeHistoryIdx, CommitmentHistoryIdx,
      ReceiptHistoryIdx, RCacheHistoryIdx, LogTopicIdx, LogAddrIdx, TracesFromIdx, TracesToIdx]"

definition domainNames :: "string list" where
  "domainNames = [''accounts'', ''storage'', ''code'', ''commitment'', ''receipt'', ''rcache'']"

definition invertedIdxNames :: "string list" where
  "invertedIdxNames =
     [''accounts'', ''storage'', ''code'', ''commitment'', ''receipt'', ''rcache'',
      ''logaddrs'', ''logtopics'', ''tracesfrom'', ''tracesto'']"

section \<open>Temporal transaction handle\<close>

text \<open>
  \<open>kv.TemporalTx\<close> is an interface; the reader calls two of its methods. A handle is the
  record of these two methods. \<open>GetAsOf\<close> returns \<open>(v, ok, err)\<close>. A \<open>nil\<close> byte slice and
  an empty one are both the empty list: the reader only takes \<open>len\<close> of the value.
\<close>

record TemporalTx =
  GetAsOf :: "Domain \<Rightarrow> bytes \<Rightarrow> u64 \<Rightarrow> bytes \<times> bool \<times> go_error option"
  HistoryStartFrom :: "Domain \<Rightarrow> u64"

section \<open>History reader\<close>

text \<open>
  The fields of \<open>accounts.Account\<close> the reader touches. The type and its two decoders
  \<open>DeserialiseV3\<close> and \<open>DecodeForStorage\<close> are declared outside these sources; the
  decoders are parameters of the operations that call them, returning the error or
  the decoded account.
\<close>

record Account =
  Nonce :: u64
  Balance :: "256 word"
  CodeHash :: bytes
  Incarnation :: u64

type_synonym decoder = "bytes \<Rightarrow> go_error + Account"

record HistoryReaderV3 =
  txNum :: u64
  trace :: bool
  ttx :: "TemporalTx option"
  composite :: bytes

definition NewHistoryReaderV3 :: HistoryReaderV3 where
  "NewHistoryReaderV3 =
     \<lparr>txNum = 0, trace = False, ttx = None, composite = replicate (20 + 32) 0\<rparr>"

definition SetTx :: "HistoryReaderV3 \<Rightarrow> TemporalTx \<Rightarrow> HistoryReaderV3" where
  "SetTx hr tx = hr\<lparr>ttx := Some tx\<rparr>"

definition SetTxNum :: "HistoryReaderV3 \<Rightarrow> u64 \<Rightarrow> HistoryReaderV3" where
  "SetTxNum hr n = hr\<lparr>txNum := n\<rparr>"

definition GetTxNum :: "HistoryReaderV3 \<Rightarrow> u64" where
  "GetTxNum hr = txNum hr"

definition SetTrace :: "HistoryReaderV3 \<Rightarrow> bool \<Rightarrow> HistoryReaderV3" where
  "SetTrace hr b = hr\<lparr>trace := b\<rparr>"

text \<open>
  \<open>StateHistoryStartFrom\<close>: the loop over the three state domains, keeping the largest
  start. Calling a method of a \<open>nil\<close> handle panics.
\<close>

definition StateHistoryStartFrom :: "HistoryReaderV3 \<Rightarrow> panic + u64" where
  "StateHistoryStartFrom hr =
     (case ttx hr of
        None \<Rightarrow> Inl NilDereference
      | Some tx \<Rightarrow>
          Inr (foldl (\<lambda>earliestTxNum domainName.
                        (let domainStartingTxNum = HistoryStartFrom tx domainName
                         in if domainStartingTxNum > earliestTxNum then domainStartingTxNum
                            else earliestTxNum))
                 0 [AccountsDomain, StorageDomain, CodeDomain]))"

text \<open>
  What the reader prints when \<open>trace\<close> is set: one constructor for each \<open>fmt.Printf\<close>
  call, holding its arguments.
\<close>

datatype trace_line =
    TraceAccountDataEmpty bytes
      \<comment> \<open>\<open>ReadAccountData [%x] => []\<close>\<close>
  | TraceAccountData bytes u64 "256 word" bytes
      \<comment> \<open>\<open>ReadAccountData [%x] => [nonce: %d, balance: %d, codeHash: %x]\<close>\<close>
  | TraceAccountStorage bytes bytes bytes
      \<comment> \<open>\<open>ReadAccountStorage [%x] [%x] => [%x]\<close>\<close>
  | TraceAccountCode bytes bytes
      \<comment> \<open>\<open>ReadAccountCode [%x] => [%x]\<close>\<close>
  | TraceAccountIncarnationZero bytes
      \<comment> \<open>\<open>ReadAccountIncarnation [%x] => [0]\<close>\<close>
  | TraceAccountIncarnation bytes u64
      \<comment> \<open>\<open>ReadAccountIncarnation [%x] => [%d]\<close>\<close>

text \<open>
  A read returns the panic, or its Go results together with the lines printed. An
  address is a \<open>[20]byte\<close>, a hash a \<open>[32]byte\<close>; both are byte lists here.
\<close>

definition ReadAccountData ::
  "decoder \<Rightarrow> HistoryReaderV3 \<Rightarrow> bytes
     \<Rightarrow> panic + ((Account option \<times> go_error option) \<times> trace_line list)" where
  "ReadAccountData DeserialiseV3 hr address =
     (case ttx hr of
        None \<Rightarrow> Inl NilDereference
      | Some tx \<Rightarrow>
          (case GetAsOf tx AccountsDomain address (txNum hr) of
             (enc, ok, err) \<Rightarrow>
               if err \<noteq> None \<or> \<not> ok \<or> length enc = 0
               then Inr ((None, err),
                         if trace hr then [TraceAccountDataEmpty address] else [])
               else (case DeserialiseV3 enc of
                       Inl e \<Rightarrow>
                         Inr ((None, Some (Wrapped ''ReadAccountData'' address e)), [])
                     | Inr a \<Rightarrow>
                         Inr ((Some a, None),
                              if trace hr
                              then [TraceAccountData address (Nonce a) (Balance a) (CodeHash a)]
                              else []))))"

definition ReadAccountDataForDebug ::
  "decoder \<Rightarrow> HistoryReaderV3 \<Rightarrow> bytes
     \<Rightarrow> panic + ((Account option \<times> go_error option) \<times> trace_line list)" where
  "ReadAccountDataForDebug DeserialiseV3 hr address = ReadAccountData DeserialiseV3 hr address"

text \<open>
  \<open>ReadAccountStorage\<close> rebuilds \<open>hr.composite\<close> first, so it also returns the reader
  with the new buffer. \<open>key\<close> is a pointer: \<open>None\<close> is \<open>nil\<close>, and \<open>key.Bytes()\<close> on it
  panics before the handle is called.
\<close>

definition ReadAccountStorage ::
  "HistoryReaderV3 \<Rightarrow> bytes \<Rightarrow> u64 \<Rightarrow> bytes option
     \<Rightarrow> panic + ((bytes \<times> go_error option) \<times> trace_line list \<times> HistoryReaderV3)" where
  "ReadAccountStorage hr address incarnation key =
     (case key of
        None \<Rightarrow> Inl NilDereference
      | Some k \<Rightarrow>
          (let hr' = hr\<lparr>composite := (take 0 (composite hr) @ address) @ k\<rparr>
           in case ttx hr' of
                None \<Rightarrow> Inl NilDereference
              | Some tx \<Rightarrow>
                  (case GetAsOf tx StorageDomain (composite hr') (txNum hr') of
                     (enc, ok, err) \<Rightarrow>
                       Inr ((enc, err),
                            if trace hr' then [TraceAccountStorage address k enc] else [],
                            hr'))))"

definition ReadAccountCode ::
  "HistoryReaderV3 \<Rightarrow> bytes \<Rightarrow> u64
     \<Rightarrow> panic + ((bytes \<times> go_error option) \<times> trace_line list)" where
  "ReadAccountCode hr address incarnation =
     (case ttx hr of
        None \<Rightarrow> Inl NilDereference
      | Some tx \<Rightarrow>
          (case GetAsOf tx CodeDomain address (txNum hr) of
             (code, ok, err) \<Rightarrow>
               Inr ((code, err), if trace hr then [TraceAccountCode address code] else [])))"

definition ReadAccountCodeSize ::
  "HistoryReaderV3 \<Rightarrow> bytes \<Rightarrow> u64
     \<Rightarrow> panic + ((int \<times> go_error option) \<times> trace_line list)" where
  "ReadAccountCodeSize hr address incarnation =
     (case ttx hr of
        None \<Rightarrow> Inl NilDereference
      | Some tx \<Rightarrow>
          (case GetAsOf tx CodeDomain address (txNum hr) of
             (enc, ok, err) \<Rightarrow> Inr ((int (length enc), err), [])))"

definition ReadAccountIncarnation ::
  "decoder \<Rightarrow> HistoryReaderV3 \<Rightarrow> bytes
     \<Rightarrow> panic + ((u64 \<times> go_error option) \<times> trace_line list)" where
  "ReadAccountIncarnation DecodeForStorage hr address =
     (case ttx hr of
        None \<Rightarrow> Inl NilDereference
      | Some tx \<Rightarrow>
          (case GetAsOf tx AccountsDomain address (txNum hr) of
             (enc, ok, err) \<Rightarrow>
               if err \<noteq> None \<or> \<not> ok \<or> length enc = 0
               then Inr ((0, err),
                         if trace hr then [TraceAccountIncarnationZero address] else [])
               else (case DecodeForStorage enc of
                       Inl e \<Rightarrow>
                         Inr ((0, Some (Wrapped ''ReadAccountIncarnation'' address e)), [])
                     | Inr a \<Rightarrow>
                         if Incarnation a = 0
                         then Inr ((0, None),
                                   if trace hr then [TraceAccountIncarnation address 0] else [])
                         else Inr ((Incarnation a - 1, None),
                                   if trace hr
                                   then [TraceAccountIncarnation address (Incarnation a - 1)]
                                   else []))))"

section \<open>The temporal handle of the specification\<close>

text \<open>
  Modelled from the spec: the store behind the temporal handle. The implementation of
  \<open>kv.TemporalTx\<close> is missing from these sources, which hold only the calls to its
  methods \<open>GetAsOf\<close> and \<open>HistoryStartFrom\<close>. A store is the list of writes of each
  domain, a write being the transaction number, the key and the new value (\<open>None\<close> for a
  deletion), together with \<open>HistoryStartFrom\<close> of each domain: the smallest transaction
  number whose history is still retrievable, 0 when nothing was pruned. For a request
  older than \<open>HistoryStartFrom\<close> the specification lets the implementation choose: it
  "either returns a distinguished \<open>PrunedError\<close> or an implementation-defined stale
  value". \<open>staleAnswer\<close> is that choice, for each domain, key and transaction number:
  \<open>None\<close> where the implementation answers with \<open>PrunedError\<close>, and the stale value with
  its \<open>found\<close> flag where it answers with one.
\<close>

record TemporalStore =
  writes :: "Domain \<Rightarrow> (u64 \<times> bytes \<times> bytes option) list"
  historyStart :: "Domain \<Rightarrow> u64"
  staleAnswer :: "Domain \<Rightarrow> bytes \<Rightarrow> u64 \<Rightarrow> (bytes \<times> bool) option"

text \<open>
  Modelled from the spec: "the most recent write with transaction number at most
  \<open>txNum\<close>" to a key, the later one in the list among writes of the same transaction.
\<close>

definition latestWrite ::
  "(u64 \<times> bytes \<times> bytes option) list \<Rightarrow> bytes \<Rightarrow> u64 \<Rightarrow> (u64 \<times> bytes option) option" where
  "latestWrite ws key t =
     foldl (\<lambda>best w.
              (case w of (n, k, v) \<Rightarrow>
                 if k = key \<and> n \<le> t \<and> (case best of None \<Rightarrow> True | Some (m, u) \<Rightarrow> m \<le> n)
                 then Some (n, v) else best))
       None ws"

text \<open>
  Modelled from the spec: \<open>GetAsOf\<close> of the temporal handle. A request older than
  \<open>HistoryStartFrom\<close> of the domain either returns \<open>PrunedError\<close> or the
  implementation-defined stale value, with no error. At or above \<open>HistoryStartFrom\<close> the
  value effective at \<open>txNum\<close> is returned, and a deletion or a key never written is
  \<open>found = false\<close> with no error.
\<close>

definition spec_GetAsOf ::
  "TemporalStore \<Rightarrow> Domain \<Rightarrow> bytes \<Rightarrow> u64 \<Rightarrow> bytes \<times> bool \<times> go_error option" where
  "spec_GetAsOf st d key t =
     (if t < historyStart st d
      then (case staleAnswer st d key t of
              None \<Rightarrow> ([], False, Some PrunedError)
            | Some (v, found) \<Rightarrow> (v, found, None))
      else (case latestWrite (writes st d) key t of
              None \<Rightarrow> ([], False, None)
            | Some (n, None) \<Rightarrow> ([], False, None)
            | Some (n, Some v) \<Rightarrow> (v, True, None)))"

text \<open>Modelled from the spec: the handle over a store, with its two methods.\<close>

definition specTemporalTx :: "TemporalStore \<Rightarrow> TemporalTx" where
  "specTemporalTx st = \<lparr>GetAsOf = spec_GetAsOf st, HistoryStartFrom = historyStart st\<rparr>"

section \<open>What the caller of a read receives\<close>

text \<open>
  The Go results of a read without what it printed (and, for \<open>ReadAccountStorage\<close>,
  without the reader it leaves behind); a panic stays a panic.
\<close>

definition returned :: "panic + ('a \<times> 'b) \<Rightarrow> panic + 'a" where
  "returned r = (case r of Inl pn \<Rightarrow> Inl pn | Inr (res, rest) \<Rightarrow> Inr res)"

section \<open>Concrete inputs\<close>

text \<open>
  A handle with \<open>HistoryStartFrom\<close> 100, 50 and 80 for accounts, storage and code, whose
  \<open>GetAsOf\<close> finds the bytes \<open>[1, 2, 3]\<close> under every account key, the key itself as the
  value of every storage key, and nothing elsewhere.
\<close>

definition exampleTx :: TemporalTx where
  "exampleTx =
     \<lparr>GetAsOf = (\<lambda>d k t.
          if d = AccountsDomain then ([1, 2, 3], True, None)
          else if d = StorageDomain then (k, True, None)
          else ([], False, None)),
      HistoryStartFrom = (\<lambda>d.
          if d = AccountsDomain then 100
          else if d = StorageDomain then 50
          else if d = CodeDomain then 80
          else 0)\<rparr>"

text \<open>A handle that finds nothing.\<close>

definition emptyTx :: TemporalTx where
  "emptyTx = \<lparr>GetAsOf = (\<lambda>d k t. ([], False, None)), HistoryStartFrom = (\<lambda>d. 0)\<rparr>"

text \<open>
  A decoder that reads the incarnation from the first byte and leaves the other
  fields empty, and an address of twenty bytes and a slot key of thirty-two.
\<close>

definition exampleDecoder :: decoder where
  "exampleDecoder enc =
     (case enc of
        [] \<Rightarrow> Inl (External ''empty'')
      | b # bs \<Rightarrow> Inr \<lparr>Nonce = 0, Balance = 0, CodeHash = [], Incarnation = ucast b\<rparr>)"

definition exampleAddress :: bytes where
  "exampleAddress = replicate 20 0xAA"

definition exampleSlot :: bytes where
  "exampleSlot = replicate 32 0x01"

text \<open>A file-name parser that recognises nothing.\<close>

definition noFileName :: parse_file_name where
  "noFileName name = (\<lparr>From = 0, To = 0\<rparr>, False, False)"

text \<open>
  The store of Scenario B: one storage write at transaction 1200, storage history
  discarded below transaction 1000, and an implementation that answers every request
  below the start with \<open>PrunedError\<close>.
\<close>

definition exampleStore :: TemporalStore where
  "exampleStore =
     \<lparr>writes = (\<lambda>d. if d = StorageDomain then [(1200, exampleSlot, Some [7])] else []),
      historyStart = (\<lambda>d. if d = StorageDomain then 1000 else 0),
      staleAnswer = (\<lambda>d k t. None)\<rparr>"

text \<open>
  The same store behind an implementation that answers a storage request below the
  start with a stale value, the bytes \<open>[7]\<close> of the write at transaction 1200.
\<close>

definition staleStore :: TemporalStore where
  "staleStore =
     \<lparr>writes = (\<lambda>d. if d = StorageDomain then [(1200, exampleSlot, Some [7])] else []),
      historyStart = (\<lambda>d. if d = StorageDomain then 1000 else 0),
      staleAnswer = (\<lambda>d k t. if d = StorageDomain then Some ([7], True) else None)\<rparr>"

text \<open>
  A catalog of two state files with the step range 0 to 100, a domain file and a
  history file; and a catalog of one domain file whose name contains \<open>transactions\<close>.
\<close>

definition exampleCatalog :: Preverified where
  "exampleCatalog =
     [\<lparr>Name = ''domain.0-100.kv'', Hash = ''''\<rparr>, \<lparr>Name = ''history.0-100.v'', Hash = ''''\<rparr>]"

definition transactionsCatalog :: Preverified where
  "transactionsCatalog = [\<lparr>Name = ''domain.0-5.transactions'', Hash = ''''\<rparr>]"

section \<open>Facts about the definitions\<close>

lemmas Domain_defs =
  AccountsDomain_def StorageDomain_def CodeDomain_def CommitmentDomain_def
  ReceiptDomain_def RCacheDomain_def DomainLen_def MaxUint16_def

lemmas InvertedIdx_defs =
  AccountsHistoryIdx_def StorageHistoryIdx_def CodeHistoryIdx_def CommitmentHistoryIdx_def
  ReceiptHistoryIdx_def RCacheHistoryIdx_def LogTopicIdx_def LogAddrIdx_def
  TracesFromIdx_def TracesToIdx_def

subsection \<open>\<open>adjustBlockPrune\<close> rounds the clamped block count down\<close>

lemma unat_sub_mod: "unat ((x::u64) - x mod L) = (unat x div unat L) * unat L"
proof -
  have e: "x - x mod L = (x div L) * L" by (simp add: minus_mod_eq_div_mult)
  have "unat x div unat L * unat L \<le> unat x" by simp
  also have "\<dots> < 2 ^ LENGTH(64)" by (rule unsigned_less)
  finally have "unat (x div L) * unat L < 2 ^ LENGTH(64)" by (simp add: unat_div)
  then have "unat ((x div L) * L) = unat (x div L) * unat L"
    by (simp only: unat_mult_lem)
  with e show ?thesis by (simp add: unat_div)
qed

lemma adjustBlockPrune_clamp:
  "adjustBlockPrune L b m = min b (max m L) - min b (max m L) mod L"
  by (auto simp: adjustBlockPrune_def Let_def min_def max_def)

text \<open>
  C9. For a merge limit other than zero (it is a positive constant in the code),
  \<open>adjustBlockPrune\<close> returns \<open>min(blocks, max(minBlocksToDownload, Erigon2MergeLimit))\<close>
  rounded down to a multiple of the merge limit: read as natural numbers, with no
  wrap-around, the result is the quotient times the limit. So the result is an exact
  multiple of the limit and exceeds neither the clamped bound nor \<open>blocks\<close>.
\<close>

theorem adjustBlockPrune_rounds_down:
  assumes "Erigon2MergeLimit \<noteq> 0"
  shows "unat (adjustBlockPrune Erigon2MergeLimit blocks minBlocksToDownload) =
           (unat (min blocks (max minBlocksToDownload Erigon2MergeLimit))
              div unat Erigon2MergeLimit) * unat Erigon2MergeLimit
         \<and> unat Erigon2MergeLimit dvd
             unat (adjustBlockPrune Erigon2MergeLimit blocks minBlocksToDownload)
         \<and> adjustBlockPrune Erigon2MergeLimit blocks minBlocksToDownload
             \<le> max minBlocksToDownload Erigon2MergeLimit
         \<and> adjustBlockPrune Erigon2MergeLimit blocks minBlocksToDownload \<le> blocks"
proof -
  let ?c = "min blocks (max minBlocksToDownload Erigon2MergeLimit)"
  let ?r = "adjustBlockPrune Erigon2MergeLimit blocks minBlocksToDownload"
  have u: "unat ?r = (unat ?c div unat Erigon2MergeLimit) * unat Erigon2MergeLimit"
    by (simp only: adjustBlockPrune_clamp unat_sub_mod)
  have "unat ?r \<le> unat ?c" unfolding u by simp
  then have le: "?r \<le> ?c" by (simp add: word_le_nat_alt)
  have "?r \<le> max minBlocksToDownload Erigon2MergeLimit"
    using le min.cobounded2 order_trans by blast
  moreover have "?r \<le> blocks"
    using le min.cobounded1 order_trans by blast
  moreover have "unat Erigon2MergeLimit dvd unat ?r" unfolding u by simp
  ultimately show ?thesis using u by blast
qed

theorem adjustBlockPrune_rounds_down_witness:
  "(100000 :: u64) \<noteq> 0
   \<and> adjustBlockPrune 100000 1234567 777777 = 700000
   \<and> unat (adjustBlockPrune 100000 1234567 777777) =
       (unat (min 1234567 (max 777777 (100000 :: u64))) div unat (100000 :: u64))
         * unat (100000 :: u64)
   \<and> unat (100000 :: u64) dvd unat (adjustBlockPrune 100000 1234567 777777)
   \<and> adjustBlockPrune 100000 1234567 777777 \<le> max 777777 100000
   \<and> adjustBlockPrune 100000 1234567 777777 \<le> 1234567"
proof -
  have h: "(100000 :: u64) \<noteq> 0" by simp
  have v: "adjustBlockPrune 100000 1234567 777777 = 700000"
    by (simp add: adjustBlockPrune_def)
  show ?thesis
    using h v adjustBlockPrune_rounds_down [OF h, of 1234567 777777] by blast
qed

subsection \<open>\<open>StateHistoryStartFrom\<close>\<close>

text \<open>
  C4. For a reader bound to a temporal transaction, \<open>StateHistoryStartFrom\<close> returns the
  maximum of \<open>HistoryStartFrom\<close> over the accounts, storage and code domains; with 100,
  50 and 80 it returns 100, and 0 when all three are 0.
\<close>

theorem StateHistoryStartFrom_is_max:
  assumes "ttx hr = Some tx"
  shows "StateHistoryStartFrom hr =
           Inr (max (HistoryStartFrom tx AccountsDomain)
                  (max (HistoryStartFrom tx StorageDomain) (HistoryStartFrom tx CodeDomain)))"
proof -
  have step: "(if e < s then s else e) = max e s" for e s :: u64
    by (auto simp: max_def)
  have zero: "max 0 a = a" for a :: u64
    by (simp add: max_def)
  show ?thesis
    using assms
    by (simp add: StateHistoryStartFrom_def Let_def step zero max.assoc)
qed

theorem StateHistoryStartFrom_is_max_witness:
  "ttx (SetTx NewHistoryReaderV3 exampleTx) = Some exampleTx
   \<and> HistoryStartFrom exampleTx AccountsDomain = 100
   \<and> HistoryStartFrom exampleTx StorageDomain = 50
   \<and> HistoryStartFrom exampleTx CodeDomain = 80
   \<and> StateHistoryStartFrom (SetTx NewHistoryReaderV3 exampleTx) = Inr 100
   \<and> StateHistoryStartFrom (SetTx NewHistoryReaderV3 emptyTx) = Inr 0"
proof -
  have h: "ttx (SetTx NewHistoryReaderV3 exampleTx) = Some exampleTx"
    by (simp add: SetTx_def)
  have h0: "ttx (SetTx NewHistoryReaderV3 emptyTx) = Some emptyTx"
    by (simp add: SetTx_def)
  have a: "HistoryStartFrom exampleTx AccountsDomain = 100"
    and s: "HistoryStartFrom exampleTx StorageDomain = 50"
    and c: "HistoryStartFrom exampleTx CodeDomain = 80"
    by (simp_all add: exampleTx_def Domain_defs)
  have z: "HistoryStartFrom emptyTx d = 0" for d
    by (simp add: emptyTx_def)
  show ?thesis
    using h a s c StateHistoryStartFrom_is_max [OF h] StateHistoryStartFrom_is_max [OF h0]
    by (simp add: z)
qed

subsection \<open>Names of domains and inverted indices\<close>

text \<open>
  C8. For each of the six domain tags, \<open>String2Domain\<close> of its \<open>String()\<close> is the tag with
  no error, and for each of the ten inverted-index tags \<open>String2InvertedIdx\<close> of its
  \<open>String()\<close> is the tag with no error. The names \<open>String()\<close> gives to the valid tags are
  the canonical names, and on every string that is not a canonical name of its kind
  each function returns its error value; neither function has a panic.
\<close>

theorem name_mappings_round_trip:
  "(d \<in> set validDomains \<longrightarrow> String2Domain (Domain_String d) = (d, None))
   \<and> (i \<in> set validInvertedIdxs \<longrightarrow> String2InvertedIdx (InvertedIdx_String i) = (i, None))
   \<and> map Domain_String validDomains = domainNames
   \<and> set (map InvertedIdx_String validInvertedIdxs) = set invertedIdxNames
   \<and> (s \<notin> set domainNames \<longrightarrow> String2Domain s = (MaxUint16, Some (UnknownHistoryName s)))
   \<and> (s \<notin> set invertedIdxNames \<longrightarrow>
        String2InvertedIdx s = ([], Some (UnknownInvertedIndexName s)))"
proof (intro conjI impI)
  assume "d \<in> set validDomains"
  then show "String2Domain (Domain_String d) = (d, None)"
    by (auto simp: validDomains_def String2Domain_def Domain_String_def Domain_defs)
next
  assume "i \<in> set validInvertedIdxs"
  then show "String2InvertedIdx (InvertedIdx_String i) = (i, None)"
    by (auto simp: validInvertedIdxs_def String2InvertedIdx_def InvertedIdx_String_def
        InvertedIdx_defs)
next
  show "map Domain_String validDomains = domainNames"
    by (simp add: validDomains_def domainNames_def Domain_String_def Domain_defs)
next
  show "set (map InvertedIdx_String validInvertedIdxs) = set invertedIdxNames"
    by (simp add: validInvertedIdxs_def invertedIdxNames_def InvertedIdx_String_def
        InvertedIdx_defs insert_commute)
next
  assume "s \<notin> set domainNames"
  then show "String2Domain s = (MaxUint16, Some (UnknownHistoryName s))"
    by (simp add: domainNames_def String2Domain_def)
next
  assume "s \<notin> set invertedIdxNames"
  then show "String2InvertedIdx s = ([], Some (UnknownInvertedIndexName s))"
    by (simp add: invertedIdxNames_def String2InvertedIdx_def)
qed

theorem name_mappings_round_trip_witness:
  "CodeDomain \<in> set validDomains
   \<and> String2Domain (Domain_String CodeDomain) = (CodeDomain, None)
   \<and> LogAddrIdx \<in> set validInvertedIdxs
   \<and> String2InvertedIdx (InvertedIdx_String LogAddrIdx) = (LogAddrIdx, None)
   \<and> ''unknown domain'' \<notin> set domainNames
   \<and> String2Domain ''unknown domain'' = (MaxUint16, Some (UnknownHistoryName ''unknown domain''))
   \<and> ''unknown index'' \<notin> set invertedIdxNames
   \<and> String2InvertedIdx ''unknown index'' = ([], Some (UnknownInvertedIndexName ''unknown index''))"
proof -
  have d: "CodeDomain \<in> set validDomains" by (simp add: validDomains_def)
  have i: "LogAddrIdx \<in> set validInvertedIdxs" by (simp add: validInvertedIdxs_def)
  have s: "''unknown domain'' \<notin> set domainNames" by (simp add: domainNames_def)
  have t: "''unknown index'' \<notin> set invertedIdxNames" by (simp add: invertedIdxNames_def)
  show ?thesis
    using d i s t
      name_mappings_round_trip [of CodeDomain LogAddrIdx "''unknown domain''"]
      name_mappings_round_trip [of CodeDomain LogAddrIdx "''unknown index''"]
    by blast
qed

subsection \<open>\<open>ReadAccountStorage\<close>\<close>

text \<open>
  C6. For a reader bound to a temporal transaction \<open>tx\<close>, \<open>ReadAccountStorage\<close> returns the
  value and the error of \<open>GetAsOf\<close> of the storage domain at the composite key, the
  address followed by the slot key (52 bytes for a 20-byte address and a 32-byte key),
  at the reader's \<open>txNum\<close>. The incarnation has no effect on what is returned, and the
  scratch buffer the call leaves behind is the composite key, whatever it held before.
\<close>

theorem ReadAccountStorage_is_GetAsOf:
  assumes "ttx hr = Some tx"
    and "GetAsOf tx StorageDomain (address @ key) (txNum hr) = (enc, ok, err)"
  shows "returned (ReadAccountStorage hr address incarnation (Some key)) = Inr (enc, err)
         \<and> ReadAccountStorage hr address incarnation' (Some key) =
             ReadAccountStorage hr address incarnation (Some key)
         \<and> ReadAccountStorage (hr\<lparr>composite := scratch\<rparr>) address incarnation (Some key) =
             ReadAccountStorage hr address incarnation (Some key)
         \<and> (\<exists>printed. ReadAccountStorage hr address incarnation (Some key) =
               Inr ((enc, err), printed, hr\<lparr>composite := address @ key\<rparr>))
         \<and> (length address = 20 \<and> length key = 32 \<longrightarrow> length (address @ key) = 52)"
  using assms by (simp add: ReadAccountStorage_def returned_def Let_def)

theorem ReadAccountStorage_is_GetAsOf_witness:
  "ttx (SetTx NewHistoryReaderV3 exampleTx) = Some exampleTx
   \<and> GetAsOf exampleTx StorageDomain (exampleAddress @ exampleSlot)
        (txNum (SetTx NewHistoryReaderV3 exampleTx)) = (exampleAddress @ exampleSlot, True, None)
   \<and> length exampleAddress = 20 \<and> length exampleSlot = 32
   \<and> length (exampleAddress @ exampleSlot) = 52
   \<and> returned (ReadAccountStorage (SetTx NewHistoryReaderV3 exampleTx) exampleAddress 7
         (Some exampleSlot)) = Inr (exampleAddress @ exampleSlot, None)"
proof -
  let ?hr = "SetTx NewHistoryReaderV3 exampleTx"
  have h: "ttx ?hr = Some exampleTx"
    by (simp add: SetTx_def)
  have g: "GetAsOf exampleTx StorageDomain (exampleAddress @ exampleSlot) (txNum ?hr) =
             (exampleAddress @ exampleSlot, True, None)"
    by (simp add: exampleTx_def Domain_defs)
  have l: "length exampleAddress = 20 \<and> length exampleSlot = 32"
    by (simp add: exampleAddress_def exampleSlot_def)
  show ?thesis
    using h g l ReadAccountStorage_is_GetAsOf [OF h g, of 7 7 "[]"] by simp
qed

subsection \<open>\<open>ReadAccountIncarnation\<close>\<close>

text \<open>
  C5. For a reader bound to a temporal transaction whose \<open>GetAsOf\<close> of the accounts
  domain at the address and the reader's \<open>txNum\<close> returns no error:
  \<open>ReadAccountIncarnation\<close> returns 0 when the record is absent (\<open>ok\<close> is false) or empty;
  when the record decodes to an account, it returns 0 for a stored incarnation of 0
  and the stored incarnation minus 1 otherwise. A stored incarnation of 3 reads back
  as 2, one of 1 as 0.
\<close>

theorem ReadAccountIncarnation_previous_life:
  assumes "ttx hr = Some tx"
    and "GetAsOf tx AccountsDomain address (txNum hr) = (enc, ok, None)"
  shows "(\<not> ok \<or> enc = [] \<longrightarrow>
            returned (ReadAccountIncarnation DecodeForStorage hr address) = Inr (0, None))
         \<and> (ok \<and> enc \<noteq> [] \<and> DecodeForStorage enc = Inr a \<longrightarrow>
              returned (ReadAccountIncarnation DecodeForStorage hr address) =
                Inr (if Incarnation a = 0 then 0 else Incarnation a - 1, None))"
  using assms by (auto simp: ReadAccountIncarnation_def returned_def)

theorem ReadAccountIncarnation_previous_life_witness:
  "ttx (SetTx NewHistoryReaderV3 emptyTx) = Some emptyTx
   \<and> GetAsOf emptyTx AccountsDomain exampleAddress (txNum (SetTx NewHistoryReaderV3 emptyTx)) =
       ([], False, None)
   \<and> returned (ReadAccountIncarnation exampleDecoder (SetTx NewHistoryReaderV3 emptyTx)
         exampleAddress) = Inr (0, None)
   \<and> ttx (SetTxNum (SetTx NewHistoryReaderV3 exampleTx) 50) = Some exampleTx
   \<and> GetAsOf exampleTx AccountsDomain exampleAddress
        (txNum (SetTxNum (SetTx NewHistoryReaderV3 exampleTx) 50)) = ([1, 2, 3], True, None)
   \<and> Incarnation \<lparr>Nonce = 0, Balance = 0, CodeHash = [], Incarnation = 3\<rparr> = 3
   \<and> returned (ReadAccountIncarnation
         (\<lambda>enc. Inr \<lparr>Nonce = 0, Balance = 0, CodeHash = [], Incarnation = 3\<rparr>)
         (SetTxNum (SetTx NewHistoryReaderV3 exampleTx) 50) exampleAddress) = Inr (2, None)
   \<and> exampleDecoder [1, 2, 3] = Inr \<lparr>Nonce = 0, Balance = 0, CodeHash = [], Incarnation = 1\<rparr>
   \<and> returned (ReadAccountIncarnation exampleDecoder
         (SetTxNum (SetTx NewHistoryReaderV3 exampleTx) 50) exampleAddress) = Inr (0, None)"
proof -
  let ?he = "SetTx NewHistoryReaderV3 emptyTx"
  let ?hr = "SetTxNum (SetTx NewHistoryReaderV3 exampleTx) 50"
  let ?three = "\<lparr>Nonce = 0, Balance = 0, CodeHash = [], Incarnation = 3\<rparr>"
  let ?one = "\<lparr>Nonce = 0, Balance = 0, CodeHash = [], Incarnation = 1\<rparr>"
  have h0: "ttx ?he = Some emptyTx"
    by (simp add: SetTx_def)
  have g0: "GetAsOf emptyTx AccountsDomain exampleAddress (txNum ?he) = ([], False, None)"
    by (simp add: emptyTx_def)
  have h: "ttx ?hr = Some exampleTx"
    by (simp add: SetTx_def SetTxNum_def)
  have g: "GetAsOf exampleTx AccountsDomain exampleAddress (txNum ?hr) = ([1, 2, 3], True, None)"
    by (simp add: exampleTx_def)
  have d: "exampleDecoder [1, 2, 3] = Inr ?one"
    by (simp add: exampleDecoder_def)
  show ?thesis
    using h0 g0 h g d
      ReadAccountIncarnation_previous_life [OF h0 g0, of exampleDecoder ?one]
      ReadAccountIncarnation_previous_life [OF h g, of "\<lambda>enc. Inr ?three" ?three]
      ReadAccountIncarnation_previous_life [OF h g, of exampleDecoder ?one]
    by simp
qed

subsection \<open>The trace flag\<close>

text \<open>
  C7. For each of \<open>ReadAccountData\<close>, \<open>ReadAccountStorage\<close>, \<open>ReadAccountCode\<close>,
  \<open>ReadAccountCodeSize\<close> and \<open>ReadAccountIncarnation\<close> and every input, two readers that
  differ only in the trace flag return the same value and the same error (or both
  panic), and \<open>ReadAccountStorage\<close> leaves the same scratch buffer behind.
\<close>

theorem trace_flag_does_not_change_results:
  "returned (ReadAccountData deserialise (hr\<lparr>trace := b\<rparr>) address) =
     returned (ReadAccountData deserialise hr address)
   \<and> returned (ReadAccountStorage (hr\<lparr>trace := b\<rparr>) address incarnation key) =
       returned (ReadAccountStorage hr address incarnation key)
   \<and> map_sum id (composite \<circ> snd \<circ> snd)
         (ReadAccountStorage (hr\<lparr>trace := b\<rparr>) address incarnation key) =
       map_sum id (composite \<circ> snd \<circ> snd) (ReadAccountStorage hr address incarnation key)
   \<and> returned (ReadAccountCode (hr\<lparr>trace := b\<rparr>) address incarnation) =
       returned (ReadAccountCode hr address incarnation)
   \<and> returned (ReadAccountCodeSize (hr\<lparr>trace := b\<rparr>) address incarnation) =
       returned (ReadAccountCodeSize hr address incarnation)
   \<and> returned (ReadAccountIncarnation decodeForStorage (hr\<lparr>trace := b\<rparr>) address) =
       returned (ReadAccountIncarnation decodeForStorage hr address)"
proof (intro conjI)
  show "returned (ReadAccountData deserialise (hr\<lparr>trace := b\<rparr>) address) =
          returned (ReadAccountData deserialise hr address)"
    by (simp add: ReadAccountData_def returned_def split: option.splits prod.splits sum.splits)
next
  show "returned (ReadAccountStorage (hr\<lparr>trace := b\<rparr>) address incarnation key) =
          returned (ReadAccountStorage hr address incarnation key)"
    by (simp add: ReadAccountStorage_def returned_def Let_def
        split: option.splits prod.splits)
next
  show "map_sum id (composite \<circ> snd \<circ> snd)
          (ReadAccountStorage (hr\<lparr>trace := b\<rparr>) address incarnation key) =
        map_sum id (composite \<circ> snd \<circ> snd) (ReadAccountStorage hr address incarnation key)"
    by (simp add: ReadAccountStorage_def Let_def split: option.splits prod.splits)
next
  show "returned (ReadAccountCode (hr\<lparr>trace := b\<rparr>) address incarnation) =
          returned (ReadAccountCode hr address incarnation)"
    by (simp add: ReadAccountCode_def returned_def split: option.splits prod.splits)
next
  show "returned (ReadAccountCodeSize (hr\<lparr>trace := b\<rparr>) address incarnation) =
          returned (ReadAccountCodeSize hr address incarnation)"
    by (simp add: ReadAccountCodeSize_def returned_def split: option.splits prod.splits)
next
  show "returned (ReadAccountIncarnation decodeForStorage (hr\<lparr>trace := b\<rparr>) address) =
          returned (ReadAccountIncarnation decodeForStorage hr address)"
    by (simp add: ReadAccountIncarnation_def returned_def
        split: option.splits prod.splits sum.splits)
qed

theorem trace_flag_does_not_change_results_witness:
  "ReadAccountIncarnation exampleDecoder (SetTx NewHistoryReaderV3 exampleTx) exampleAddress =
     Inr ((0, None), [])
   \<and> ReadAccountIncarnation exampleDecoder
         (SetTrace (SetTx NewHistoryReaderV3 exampleTx) True) exampleAddress =
       Inr ((0, None), [TraceAccountIncarnation exampleAddress 0])
   \<and> returned (ReadAccountIncarnation exampleDecoder
         (SetTrace (SetTx NewHistoryReaderV3 exampleTx) True) exampleAddress) =
       returned (ReadAccountIncarnation exampleDecoder (SetTx NewHistoryReaderV3 exampleTx)
         exampleAddress)
   \<and> returned (ReadAccountStorage (SetTrace (SetTx NewHistoryReaderV3 exampleTx) True)
         exampleAddress 1 (Some exampleSlot)) =
       returned (ReadAccountStorage (SetTx NewHistoryReaderV3 exampleTx)
         exampleAddress 1 (Some exampleSlot))
   \<and> returned (ReadAccountData exampleDecoder (SetTrace (SetTx NewHistoryReaderV3 exampleTx) True)
         exampleAddress) =
       returned (ReadAccountData exampleDecoder (SetTx NewHistoryReaderV3 exampleTx)
         exampleAddress)"
proof -
  let ?hr = "SetTx NewHistoryReaderV3 exampleTx"
  have t: "SetTrace ?hr True = ?hr\<lparr>trace := True\<rparr>"
    by (simp add: SetTrace_def)
  have plain: "ReadAccountIncarnation exampleDecoder ?hr exampleAddress = Inr ((0, None), [])"
    by (simp add: ReadAccountIncarnation_def SetTx_def NewHistoryReaderV3_def exampleTx_def
        exampleDecoder_def)
  have traced: "ReadAccountIncarnation exampleDecoder (?hr\<lparr>trace := True\<rparr>) exampleAddress =
       Inr ((0, None), [TraceAccountIncarnation exampleAddress 0])"
    by (simp add: ReadAccountIncarnation_def SetTx_def NewHistoryReaderV3_def exampleTx_def
        exampleDecoder_def)
  show ?thesis
    using plain traced
      trace_flag_does_not_change_results
        [where deserialise = exampleDecoder and decodeForStorage = exampleDecoder
           and hr = ?hr and b = True and address = exampleAddress and incarnation = 1
           and key = "Some exampleSlot"]
    by (simp only: t simp_thms)
qed

subsection \<open>Queries below the pruning boundary\<close>





text \<open>At or above the boundary both stores answer with the value of the latest write.\<close>

lemma exampleStore_above_boundary:
  "GetAsOf (specTemporalTx exampleStore) StorageDomain exampleSlot 1500 = ([7], True, None)"
  "GetAsOf (specTemporalTx exampleStore) StorageDomain exampleSlot 1100 = ([], False, None)"
  "GetAsOf (specTemporalTx staleStore) StorageDomain exampleSlot 1500 = ([7], True, None)"
  by (simp_all add: specTemporalTx_def spec_GetAsOf_def latestWrite_def exampleStore_def
      staleStore_def)

subsection \<open>\<open>buildBlackListForPruning\<close> on state files\<close>

text \<open>
  When the loop returns a blacklist, a name is in it exactly when it was there at the
  start or the body of the loop put it in for one of the entries: the name can be
  pruned and either is a state file whose upper step does not exceed \<open>stepPrune\<close>, or
  is a block file whose upper block does not exceed \<open>blockPrune\<close>.
\<close>

lemma blackListLoop_member:
  assumes "blackListLoop ParseFileName stepPrune blockPrune ps start = Inr (Some blackList, err)"
  shows "name \<in> blackList \<longleftrightarrow>
           name \<in> start \<or>
           (name \<in> Name ` set ps \<and> canSnapshotBePruned name \<and>
            (if isStateSnapshot name
             then (\<exists>toStep. parseStepTo name = Inr (Inr toStep) \<and> toStep \<le> stepPrune)
             else snd (snd (ParseFileName name)) \<and> To (fst (ParseFileName name)) \<le> blockPrune))"
  using assms
proof (induction ps arbitrary: start)
  case Nil
  then show ?case by simp
next
  case (Cons p ps)
  let ?n = "Name p"
  show ?case
  proof (cases "canSnapshotBePruned ?n")
    case False
    with Cons.prems have "blackListLoop ParseFileName stepPrune blockPrune ps start =
        Inr (Some blackList, err)"
      by simp
    from Cons.IH [OF this] False show ?thesis by auto
  next
    case prunable: True
    show ?thesis
    proof (cases "isStateSnapshot ?n")
      case state: True
      from Cons.prems prunable state obtain toStep where
        t: "parseStepTo ?n = Inr (Inr toStep)"
        by (auto simp: Let_def split: sum.splits)
      show ?thesis
      proof (cases "stepPrune < toStep")
        case True
        with Cons.prems prunable state t
        have "blackListLoop ParseFileName stepPrune blockPrune ps start =
            Inr (Some blackList, err)"
          by simp
        from Cons.IH [OF this] True t state show ?thesis
          by (auto simp: not_le)
      next
        case False
        with Cons.prems prunable state t
        have "blackListLoop ParseFileName stepPrune blockPrune ps (insert ?n start) =
            Inr (Some blackList, err)"
          by simp
        from Cons.IH [OF this] False t state prunable show ?thesis
          by (auto simp: not_less)
      qed
    next
      case block: False
      obtain res isSeedable ok where r: "ParseFileName ?n = (res, isSeedable, ok)"
        by (cases "ParseFileName ?n")
      show ?thesis
      proof (cases "ok \<and> \<not> blockPrune < To res")
        case True
        with Cons.prems prunable block r
        have "blackListLoop ParseFileName stepPrune blockPrune ps (insert ?n start) =
            Inr (Some blackList, err)"
          by simp
        from Cons.IH [OF this] True r block prunable show ?thesis
          by (auto simp: not_less)
      next
        case False
        with Cons.prems prunable block r
        have "blackListLoop ParseFileName stepPrune blockPrune ps start =
            Inr (Some blackList, err)"
          by (auto split: if_splits)
        from Cons.IH [OF this] False r block show ?thesis
          by (auto simp: not_le)
      qed
    qed
  qed
qed

lemma blackListLoop_parses:
  assumes "blackListLoop ParseFileName stepPrune blockPrune ps start = Inr (Some blackList, err)"
    and "p \<in> set ps" and "canSnapshotBePruned (Name p)" and "isStateSnapshot (Name p)"
  shows "\<exists>toStep. parseStepTo (Name p) = Inr (Inr toStep)"
  using assms
proof (induction ps arbitrary: start)
  case Nil
  then show ?case by simp
next
  case (Cons q ps)
  show ?case
  proof (cases "p = q")
    case True
    with Cons.prems show ?thesis
      by (auto simp: Let_def split: sum.splits)
  next
    case False
    with Cons.prems have "p \<in> set ps" by simp
    moreover from Cons.prems(1) obtain start' where
      "blackListLoop ParseFileName stepPrune blockPrune ps start' = Inr (Some blackList, err)"
      by (auto simp: Let_def split: if_splits sum.splits prod.splits)
    ultimately show ?thesis
      using Cons.IH Cons.prems(3,4) by blast
  qed
qed

lemma blackListLoop_no_error:
  "blackListLoop ParseFileName stepPrune blockPrune ps start = Inr (Some blackList, err)
     \<Longrightarrow> err = None"
  by (induction ps arbitrary: start)
    (auto simp: Let_def split: if_splits sum.splits prod.splits)

lemma domain_is_not_state_history:
  "HasPrefix name ''domain'' \<Longrightarrow> \<not> isStateHistory name"
  by (auto simp: HasPrefix_def isStateHistory_def prefix_def)

text \<open>
  C1, as the code has it. When pruning is enabled and \<open>buildBlackListForPruning\<close> returns
  a blacklist, it returns it with no error, and for every catalog entry whose name is
  a state artifact: the entry is in the blacklist exactly when its name can be pruned
  (it starts with \<open>idx\<close>, \<open>history\<close> or \<open>accessor\<close>, or contains \<open>transactions\<close>) and
  \<open>stepPrune\<close> is at least the upper step parsed from the name; the upper step of
  every such entry that can be pruned does parse. So an entry that cannot be pruned is
  not in the blacklist, and a \<open>domain\<close> file is in the blacklist exactly when its name
  contains \<open>transactions\<close> and \<open>stepPrune\<close> is at least its upper step.
\<close>

theorem buildBlackListForPruning_state_files:
  assumes "buildBlackListForPruning Erigon2MergeLimit ParseFileName True stepPrune
             minBlockToDownload blockPrune preverified = Inr (Some blackList, err)"
    and "p \<in> set preverified"
    and "isStateSnapshot (Name p)"
  shows "err = None
         \<and> (Name p \<in> blackList \<longleftrightarrow>
              canSnapshotBePruned (Name p) \<and>
              (\<exists>toStep. parseStepTo (Name p) = Inr (Inr toStep) \<and> stepPrune \<ge> toStep))
         \<and> (canSnapshotBePruned (Name p) \<longrightarrow>
              (\<exists>toStep. parseStepTo (Name p) = Inr (Inr toStep) \<and>
                 (Name p \<in> blackList \<longleftrightarrow> stepPrune \<ge> toStep)))
         \<and> (\<not> canSnapshotBePruned (Name p) \<longrightarrow> Name p \<notin> blackList)
         \<and> (HasPrefix (Name p) ''domain'' \<longrightarrow>
              (Name p \<in> blackList \<longleftrightarrow>
                 Contains (Name p) ''transactions'' \<and>
                 (\<exists>toStep. parseStepTo (Name p) = Inr (Inr toStep) \<and> stepPrune \<ge> toStep)))"
proof -
  let ?bp = "adjustBlockPrune Erigon2MergeLimit blockPrune minBlockToDownload"
  from assms(1) have loop:
    "blackListLoop ParseFileName stepPrune ?bp preverified {} = Inr (Some blackList, err)"
    by (simp add: buildBlackListForPruning_def)
  have e: "err = None"
    using loop by (rule blackListLoop_no_error)
  have "Name p \<in> Name ` set preverified"
    using assms(2) by simp
  with blackListLoop_member [OF loop, of "Name p"] assms(3)
  have m: "Name p \<in> blackList \<longleftrightarrow>
             canSnapshotBePruned (Name p) \<and>
             (\<exists>toStep. parseStepTo (Name p) = Inr (Inr toStep) \<and> stepPrune \<ge> toStep)"
    by simp
  have q: "\<exists>toStep. parseStepTo (Name p) = Inr (Inr toStep) \<and>
          (Name p \<in> blackList \<longleftrightarrow> stepPrune \<ge> toStep)"
    if c: "canSnapshotBePruned (Name p)"
  proof -
    from blackListLoop_parses [OF loop assms(2) c assms(3)]
    obtain toStep where "parseStepTo (Name p) = Inr (Inr toStep)" ..
    with m c show ?thesis by auto
  qed
  have n: "Name p \<notin> blackList" if "\<not> canSnapshotBePruned (Name p)"
    using that m by simp
  have d: "Name p \<in> blackList \<longleftrightarrow>
             Contains (Name p) ''transactions'' \<and>
             (\<exists>toStep. parseStepTo (Name p) = Inr (Inr toStep) \<and> stepPrune \<ge> toStep)"
    if "HasPrefix (Name p) ''domain''"
  proof -
    from that have "\<not> isStateHistory (Name p)"
      by (rule domain_is_not_state_history)
    then have "canSnapshotBePruned (Name p) \<longleftrightarrow> Contains (Name p) ''transactions''"
      by (simp add: canSnapshotBePruned_def)
    with m show ?thesis by simp
  qed
  from e m q n d show ?thesis by blast
qed

theorem buildBlackListForPruning_state_files_witness:
  "buildBlackListForPruning 100000 noFileName True 150 0 0 exampleCatalog =
     Inr (Some {''history.0-100.v''}, None)
   \<and> buildBlackListForPruning 100000 noFileName True 50 0 0 exampleCatalog =
       Inr (Some {}, None)
   \<and> \<lparr>Name = ''history.0-100.v'', Hash = ''''\<rparr> \<in> set exampleCatalog
   \<and> isStateSnapshot ''history.0-100.v''
   \<and> canSnapshotBePruned ''history.0-100.v''
   \<and> parseStepTo ''history.0-100.v'' = Inr (Inr 100)
   \<and> ''history.0-100.v'' \<in> {''history.0-100.v''}
   \<and> (100 :: u64) \<le> 150
   \<and> ''history.0-100.v'' \<notin> {}
   \<and> \<not> (100 :: u64) \<le> 50
   \<and> \<lparr>Name = ''domain.0-100.kv'', Hash = ''''\<rparr> \<in> set exampleCatalog
   \<and> isStateSnapshot ''domain.0-100.kv''
   \<and> HasPrefix ''domain.0-100.kv'' ''domain''
   \<and> \<not> canSnapshotBePruned ''domain.0-100.kv''
   \<and> \<not> Contains ''domain.0-100.kv'' ''transactions''
   \<and> ''domain.0-100.kv'' \<notin> {''history.0-100.v''}
   \<and> buildBlackListForPruning 100000 noFileName True 5 0 0 transactionsCatalog =
       Inr (Some {''domain.0-5.transactions''}, None)
   \<and> buildBlackListForPruning 100000 noFileName True 4 0 0 transactionsCatalog =
       Inr (Some {}, None)
   \<and> \<lparr>Name = ''domain.0-5.transactions'', Hash = ''''\<rparr> \<in> set transactionsCatalog
   \<and> isStateSnapshot ''domain.0-5.transactions''
   \<and> HasPrefix ''domain.0-5.transactions'' ''domain''
   \<and> Contains ''domain.0-5.transactions'' ''transactions''
   \<and> canSnapshotBePruned ''domain.0-5.transactions''
   \<and> parseStepTo ''domain.0-5.transactions'' = Inr (Inr 5)"
proof -
  let ?p = "\<lparr>Name = ''history.0-100.v'', Hash = ''''\<rparr>"
  let ?q = "\<lparr>Name = ''domain.0-100.kv'', Hash = ''''\<rparr>"
  let ?r = "\<lparr>Name = ''domain.0-5.transactions'', Hash = ''''\<rparr>"
  have c: "canSnapshotBePruned ''history.0-100.v''"
    by (simp add: canSnapshotBePruned_def isStateHistory_def HasPrefix_def)
  have s: "isStateSnapshot (Name ?p)"
    by (simp add: isStateSnapshot_def isStateHistory_def HasPrefix_def)
  have t: "parseStepTo ''history.0-100.v'' = Inr (Inr 100)"
    by (simp add: parseStepTo_def ParseUint_def digit_def)
  have m: "?p \<in> set exampleCatalog"
    by (simp add: exampleCatalog_def)
  have dp: "HasPrefix ''domain.0-100.kv'' ''domain''"
    by (simp add: HasPrefix_def)
  have ds: "isStateSnapshot (Name ?q)"
    by (simp add: isStateSnapshot_def isStateHistory_def HasPrefix_def)
  have dt: "\<not> Contains ''domain.0-100.kv'' ''transactions''"
    by simp
  have d: "\<not> canSnapshotBePruned ''domain.0-100.kv''"
    by (simp add: canSnapshotBePruned_def isStateHistory_def HasPrefix_def)
  have dm: "?q \<in> set exampleCatalog"
    by (simp add: exampleCatalog_def)
  have rp: "HasPrefix ''domain.0-5.transactions'' ''domain''"
    by (simp add: HasPrefix_def)
  have rs: "isStateSnapshot (Name ?r)"
    by (simp add: isStateSnapshot_def isStateHistory_def HasPrefix_def)
  have rt: "Contains ''domain.0-5.transactions'' ''transactions''"
    by simp
  have rc: "canSnapshotBePruned ''domain.0-5.transactions''"
    by (simp add: canSnapshotBePruned_def isStateHistory_def HasPrefix_def)
  have rn: "parseStepTo ''domain.0-5.transactions'' = Inr (Inr 5)"
    by (simp add: parseStepTo_def ParseUint_def digit_def)
  have rm: "?r \<in> set transactionsCatalog"
    by (simp add: transactionsCatalog_def)
  have hi: "buildBlackListForPruning 100000 noFileName True 150 0 0 exampleCatalog =
      Inr (Some {''history.0-100.v''}, None)"
    using c s d t by (simp add: buildBlackListForPruning_def exampleCatalog_def)
  have lo: "buildBlackListForPruning 100000 noFileName True 50 0 0 exampleCatalog =
      Inr (Some {}, None)"
    using c s d t by (simp add: buildBlackListForPruning_def exampleCatalog_def)
  have five: "buildBlackListForPruning 100000 noFileName True 5 0 0 transactionsCatalog =
      Inr (Some {''domain.0-5.transactions''}, None)"
    using rc rs rn by (simp add: buildBlackListForPruning_def transactionsCatalog_def)
  have four: "buildBlackListForPruning 100000 noFileName True 4 0 0 transactionsCatalog =
      Inr (Some {}, None)"
    using rc rs rn by (simp add: buildBlackListForPruning_def transactionsCatalog_def)
  show ?thesis
    using c s t m hi lo dp ds dt d dm rp rs rt rc rn rm five four
      buildBlackListForPruning_state_files [OF hi m s]
      buildBlackListForPruning_state_files [OF lo m s]
      buildBlackListForPruning_state_files [OF hi dm ds]
      buildBlackListForPruning_state_files [OF five rm rs]
      buildBlackListForPruning_state_files [OF four rm rs]
    by simp
qed

text \<open>
  The domain file \<open>domain.0-100.kv\<close> is a state artifact with upper step 100, and with
  \<open>stepPrune = 150\<close> it is not in the blacklist: the loop skips every name that cannot
  be pruned before it looks at the range.
\<close>

theorem buildBlackListForPruning_domain_file_kept:
  "isStateSnapshot ''domain.0-100.kv''
   \<and> parseStepTo ''domain.0-100.kv'' = Inr (Inr 100)
   \<and> (100 :: u64) \<le> 150
   \<and> buildBlackListForPruning 100000 noFileName True 150 0 0
         [\<lparr>Name = ''domain.0-100.kv'', Hash = ''''\<rparr>] = Inr (Some {}, None)
   \<and> ''domain.0-100.kv'' \<notin> ({} :: string set)"
proof -
  have s: "isStateSnapshot ''domain.0-100.kv''"
    by (simp add: isStateSnapshot_def isStateHistory_def HasPrefix_def)
  have d: "\<not> canSnapshotBePruned ''domain.0-100.kv''"
    by (simp add: canSnapshotBePruned_def isStateHistory_def HasPrefix_def)
  have t: "parseStepTo ''domain.0-100.kv'' = Inr (Inr 100)"
    by (simp add: parseStepTo_def ParseUint_def digit_def)
  have b: "buildBlackListForPruning 100000 noFileName True 150 0 0
         [\<lparr>Name = ''domain.0-100.kv'', Hash = ''''\<rparr>] = Inr (Some {}, None)"
    using d by (simp add: buildBlackListForPruning_def)
  show ?thesis
    using s t b by simp
qed

subsection \<open>The gap between snapshots and database\<close>

text \<open>
  C2. With \<open>n\<close> the block number read from the database's first non-genesis key, the
  last check of the reconciliation returns the gap error exactly when
  \<open>SegmentsMax() + 1 < n\<close>, and returns without an error otherwise; it also returns
  without an error when the database has no such key. Unless the snapshot coverage is
  the largest 64-bit number, \<open>SegmentsMax() + 1 < n\<close> says that the first block in the
  database is more than one past the last block the snapshots cover. A first block of
  2,000,000 with coverage ending at 1,999,998 gives the gap error.
\<close>

theorem lastCheck_gap_error_iff:
  assumes "BigEndianUint64 k = Inr n"
  shows "WaitForDownloader_lastCheck chaindata segmentsMax (None, None) = Inr None
         \<and> (WaitForDownloader_lastCheck chaindata segmentsMax (Some k, None) =
               Inr (Some (GapError chaindata)) \<longleftrightarrow> segmentsMax + 1 < n)
         \<and> (WaitForDownloader_lastCheck chaindata segmentsMax (Some k, None) = Inr None
               \<longleftrightarrow> \<not> segmentsMax + 1 < n)
         \<and> (segmentsMax \<noteq> - 1 \<longrightarrow>
               (segmentsMax + 1 < n \<longleftrightarrow> unat segmentsMax + 1 < unat n))"
proof -
  have "unat (segmentsMax + 1) = unat segmentsMax + 1" if "segmentsMax \<noteq> - 1"
  proof -
    have "1 + segmentsMax \<noteq> 0"
      using that by (metis add_eq_0_iff)
    then show ?thesis
      using unatSuc [of segmentsMax] by (simp add: add.commute)
  qed
  then have "segmentsMax + 1 < n \<longleftrightarrow> unat segmentsMax + 1 < unat n" if "segmentsMax \<noteq> - 1"
    using that by (simp add: word_less_nat_alt)
  then show ?thesis
    using assms by (simp add: WaitForDownloader_lastCheck_def)
qed

theorem lastCheck_gap_error_iff_witness:
  "BigEndianUint64 [0, 0, 0, 0, 0, 0x1E, 0x84, 0x80] = Inr 2000000
   \<and> (1999998 :: u64) + 1 < 2000000
   \<and> WaitForDownloader_lastCheck ''chaindata'' 1999998
         (Some [0, 0, 0, 0, 0, 0x1E, 0x84, 0x80], None) = Inr (Some (GapError ''chaindata''))
   \<and> WaitForDownloader_lastCheck ''chaindata'' 1999999
         (Some [0, 0, 0, 0, 0, 0x1E, 0x84, 0x80], None) = Inr None
   \<and> WaitForDownloader_lastCheck ''chaindata'' 1999998 (None, None) = Inr None"
proof -
  have d: "BigEndianUint64 [0, 0, 0, 0, 0, 0x1E, 0x84, 0x80] = Inr 2000000"
    by (simp add: BigEndianUint64_def)
  have lt: "(1999998 :: u64) + 1 < 2000000" and ge: "\<not> (1999999 :: u64) + 1 < 2000000"
    by simp_all
  show ?thesis
    using d lt ge
      lastCheck_gap_error_iff [OF d, of "''chaindata''" 1999998]
      lastCheck_gap_error_iff [OF d, of "''chaindata''" 1999999]
    by blast
qed

subsection \<open>\<open>getMinimumBlocksToDownload\<close> when no body qualifies\<close>

lemma frozenBodies_keep_minToDownload:
  assumes "\<forall>body \<in> set bodies. \<not> fst (snd body) < stateTxNum"
  shows "fst (foldl (frozenBodyCallback DefaultStepSize frozenBlocks stateTxNum historyPruneTo)
                vars bodies) = fst vars"
  using assms
proof (induction bodies arbitrary: vars)
  case Nil
  then show ?case by simp
next
  case (Cons body bodies)
  obtain blockNum baseTxNum txAmount where b: "body = (blockNum, baseTxNum, txAmount)"
    by (cases body)
  from Cons.prems b have "stateTxNum \<le> baseTxNum"
    by (simp add: not_less)
  then have "fst (frozenBodyCallback DefaultStepSize frozenBlocks stateTxNum historyPruneTo
                    vars body) = fst vars"
    by (simp add: frozenBodyCallback_def b Let_def split: prod.splits)
  with Cons show ?case by simp
qed

lemma frozenBodies_keep_minStateStep:
  assumes "\<forall>body \<in> set bodies. fst body \<noteq> historyPruneTo"
  shows "snd (foldl (frozenBodyCallback DefaultStepSize frozenBlocks stateTxNum historyPruneTo)
                vars bodies) = snd vars"
  using assms
proof (induction bodies arbitrary: vars)
  case Nil
  then show ?case by simp
next
  case (Cons body bodies)
  obtain blockNum baseTxNum txAmount where b: "body = (blockNum, baseTxNum, txAmount)"
    by (cases body)
  from Cons.prems b have "blockNum \<noteq> historyPruneTo"
    by simp
  then have "snd (frozenBodyCallback DefaultStepSize frozenBlocks stateTxNum historyPruneTo
                    vars body) = snd vars"
    by (simp add: frozenBodyCallback_def b Let_def split: prod.splits)
  with Cons show ?case by simp
qed

text \<open>
  C10. When \<open>IterateFrozenBodies\<close> returns no error: if none of the bodies it visits has a
  \<open>baseTxNum\<close> strictly below \<open>maxStateStep * DefaultStepSize\<close> (a wrap-around product),
  \<open>minToDownload\<close> keeps its initial value \<open>2^64 - 1\<close> and the returned
  \<open>minBlockToDownload\<close> is \<open>frozenBlocks - (2^64 - 1)\<close> in wrap-around arithmetic, which
  is \<open>frozenBlocks + 1\<close> modulo \<open>2^64\<close>; and if none of the visited bodies has
  \<open>blockNum\<close> equal to \<open>historyPruneTo\<close>, the returned \<open>minStateStepToDownload\<close> is its
  initial value \<open>2^32 - 1\<close>.
\<close>

theorem getMinimumBlocksToDownload_initial_values:
  "((\<forall>body \<in> set bodies. \<not> fst (snd body) < maxStateStep * DefaultStepSize) \<longrightarrow>
      fst (getMinimumBlocksToDownload DefaultStepSize frozenBlocks bodies None
             maxStateStep historyPruneTo) = frozenBlocks - 0xFFFFFFFFFFFFFFFF
      \<and> frozenBlocks - 0xFFFFFFFFFFFFFFFF = frozenBlocks + 1
      \<and> unat (frozenBlocks + 1) = (unat frozenBlocks + 1) mod 2 ^ 64)
   \<and> ((\<forall>body \<in> set bodies. fst body \<noteq> historyPruneTo) \<longrightarrow>
        fst (snd (getMinimumBlocksToDownload DefaultStepSize frozenBlocks bodies None
                    maxStateStep historyPruneTo)) = 0xFFFFFFFF
        \<and> unat (0xFFFFFFFF :: u64) = 2 ^ 32 - 1)
   \<and> snd (snd (getMinimumBlocksToDownload DefaultStepSize frozenBlocks bodies None
                  maxStateStep historyPruneTo)) = None"
proof (intro conjI impI)
  assume "\<forall>body \<in> set bodies. \<not> fst (snd body) < maxStateStep * DefaultStepSize"
  then show "fst (getMinimumBlocksToDownload DefaultStepSize frozenBlocks bodies None
                    maxStateStep historyPruneTo) = frozenBlocks - 0xFFFFFFFFFFFFFFFF"
    by (simp add: getMinimumBlocksToDownload_def Let_def frozenBodies_keep_minToDownload)
next
  show "frozenBlocks - 0xFFFFFFFFFFFFFFFF = frozenBlocks + 1"
    by simp
next
  show "unat (frozenBlocks + 1) = (unat frozenBlocks + 1) mod 2 ^ 64"
    by (simp add: unat_word_ariths)
next
  assume "\<forall>body \<in> set bodies. fst body \<noteq> historyPruneTo"
  then show "fst (snd (getMinimumBlocksToDownload DefaultStepSize frozenBlocks bodies None
                         maxStateStep historyPruneTo)) = 0xFFFFFFFF"
    by (simp add: getMinimumBlocksToDownload_def Let_def frozenBodies_keep_minStateStep)
next
  show "unat (0xFFFFFFFF :: u64) = 2 ^ 32 - 1"
    by simp
next
  show "snd (snd (getMinimumBlocksToDownload DefaultStepSize frozenBlocks bodies None
                    maxStateStep historyPruneTo)) = None"
    by (simp add: getMinimumBlocksToDownload_def Let_def)
qed

theorem getMinimumBlocksToDownload_initial_values_witness:
  "(\<not> fst (snd ((7, 4000000, 10) :: frozen_body)) < (2 :: u64) * 1562500)
   \<and> fst ((7, 4000000, 10) :: frozen_body) \<noteq> 9
   \<and> getMinimumBlocksToDownload 1562500 1000 [(7, 4000000, 10)] None 2 9 =
       (1001, 0xFFFFFFFF, None)
   \<and> getMinimumBlocksToDownload 1562500 0xFFFFFFFFFFFFFFFF [(7, 4000000, 10)] None 2 9 =
       (0, 0xFFFFFFFF, None)"
proof -
  have q: "\<forall>body \<in> set [(7, 4000000, 10) :: frozen_body].
             \<not> fst (snd body) < (2 :: u64) * 1562500"
    by simp
  have r: "\<forall>body \<in> set [(7, 4000000, 10) :: frozen_body]. fst body \<noteq> 9"
    by simp
  have p: "x = (fst x, fst (snd x), snd (snd x))" for x :: "u64 \<times> u64 \<times> go_error option"
    by simp
  show ?thesis
    using q r
      getMinimumBlocksToDownload_initial_values
        [where bodies = "[(7, 4000000, 10)]" and maxStateStep = 2
           and DefaultStepSize = 1562500 and frozenBlocks = 1000 and historyPruneTo = 9]
      getMinimumBlocksToDownload_initial_values
        [where bodies = "[(7, 4000000, 10)]" and maxStateStep = 2
           and DefaultStepSize = 1562500 and frozenBlocks = "0xFFFFFFFFFFFFFFFF"
           and historyPruneTo = 9]
      p [of "getMinimumBlocksToDownload 1562500 1000 [(7, 4000000, 10)] None 2 9"]
      p [of "getMinimumBlocksToDownload 1562500 0xFFFFFFFFFFFFFFFF [(7, 4000000, 10)] None 2 9"]
    by simp
qed

text \<open>When the iterator returns an error, the function returns zeros and that error.\<close>

lemma getMinimumBlocksToDownload_iterator_error:
  "getMinimumBlocksToDownload DefaultStepSize frozenBlocks bodies (Some e) maxStateStep
     historyPruneTo = (0, 0, Some e)"
  by (simp add: getMinimumBlocksToDownload_def Let_def)

end
